theory Spec2Isabelle
  imports Main
begin

section \<open>JavaScript values\<close>

text \<open>
  The TypeScript types are erased at run time. Request bodies, query keys and cached
  responses are plain JavaScript data, modelled by \<open>jsval\<close>. An object is the list of
  its own properties in enumeration order. Numbers are the integers (page numbers,
  sizes, status codes); \<open>NaN\<close> and fractions are outside the model, and so are the
  integers beyond the safe range, which a JavaScript number does not hold exactly.
\<close>

datatype jsval =
    JUndefined
  | JNull
  | JBool bool
  | JNum int
  | JStr string
  | JArr "jsval list"
  | JObj "(string \<times> jsval) list"

text \<open>The truthiness test of \<open>if (x)\<close>, \<open>x && y\<close> and \<open>!!x\<close>.\<close>

fun truthy :: "jsval \<Rightarrow> bool" where
  "truthy JUndefined = False"
| "truthy JNull = False"
| "truthy (JBool b) = b"
| "truthy (JNum n) = (n \<noteq> 0)"
| "truthy (JStr s) = (s \<noteq> [])"
| "truthy (JArr xs) = True"
| "truthy (JObj ps) = True"

text \<open>
  The safe integers, \<open>Number.MIN_SAFE_INTEGER\<close> to \<open>Number.MAX_SAFE_INTEGER\<close>: the
  integers a JavaScript number holds exactly.
\<close>

definition safe_integer :: "int \<Rightarrow> bool" where
  "safe_integer n = (- 9007199254740991 \<le> n \<and> n \<le> 9007199254740991)"

text \<open>
  Decimal rendering of a number. On a safe integer this is the text that
  \<open>Number.prototype.toString\<close> gives. Beyond the safe range the engine rounds the digits
  and, from \<open>1e21\<close> on, writes an exponent; there \<open>number_toString\<close> is not the
  engine's text, and a statement about the text of a number is made for safe integers.
\<close>

fun digits :: "nat \<Rightarrow> string" where
  "digits n = (if n < 10 then [''0123456789'' ! n]
               else digits (n div 10) @ [''0123456789'' ! (n mod 10)])"

declare digits.simps [simp del]

definition number_toString :: "int \<Rightarrow> string" where
  "number_toString n = (if n < 0 then CHR ''-'' # digits (nat (- n)) else digits (nat n))"

fun join :: "string \<Rightarrow> string list \<Rightarrow> string" where
  "join sep [] = []"
| "join sep [x] = x"
| "join sep (x # y # ys) = x @ sep @ join sep (y # ys)"

text \<open>
  \<open>a || d\<close> where \<open>a\<close> is a string or \<open>undefined\<close> (\<open>None\<close>): the empty string is
  falsy as well.
\<close>

definition or_else :: "string option \<Rightarrow> string \<Rightarrow> string" where
  "or_else a d = (case a of None \<Rightarrow> d | Some s \<Rightarrow> if s = [] then d else s)"

text \<open>A template literal \<open>`${x}`\<close> renders \<open>undefined\<close> as the text \<open>undefined\<close>.\<close>

definition template :: "string option \<Rightarrow> string" where
  "template a = (case a of None \<Rightarrow> ''undefined'' | Some s \<Rightarrow> s)"

text \<open>\<open>String.prototype.includes\<close>.\<close>

fun str_includes :: "string \<Rightarrow> string \<Rightarrow> bool" where
  "str_includes [] sub = (sub = [])"
| "str_includes (c # cs) sub = (take (length sub) (c # cs) = sub \<or> str_includes cs sub)"

text \<open>The conversion of a value to a string (\<open>ToString\<close>), used for query parameters.\<close>

fun ToString :: "jsval \<Rightarrow> string" where
  "ToString JUndefined = ''undefined''"
| "ToString JNull = ''null''"
| "ToString (JBool b) = (if b then ''true'' else ''false'')"
| "ToString (JNum n) = number_toString n"
| "ToString (JStr s) = s"
| "ToString (JArr xs) =
     join '','' (map (\<lambda>x. if x = JUndefined \<or> x = JNull then [] else ToString x) xs)"
| "ToString (JObj ps) = ''[object Object]''"

text \<open>
  An optional argument as the value the code sees at run time: an argument that is not
  passed is \<open>undefined\<close>.
\<close>

definition str_arg :: "string option \<Rightarrow> jsval" where
  "str_arg a = (case a of None \<Rightarrow> JUndefined | Some s \<Rightarrow> JStr s)"

definition num_arg :: "int option \<Rightarrow> jsval" where
  "num_arg a = (case a of None \<Rightarrow> JUndefined | Some n \<Rightarrow> JNum n)"

definition obj_arg :: "(string \<times> jsval) list option \<Rightarrow> jsval" where
  "obj_arg a = (case a of None \<Rightarrow> JUndefined | Some ps \<Rightarrow> JObj ps)"

text \<open>A value all of whose numbers are safe integers, and the same for optional arguments.\<close>

fun safe_value :: "jsval \<Rightarrow> bool" where
  "safe_value (JNum n) = safe_integer n"
| "safe_value (JArr xs) = list_all safe_value xs"
| "safe_value (JObj ps) = list_all (\<lambda>(k, v). safe_value v) ps"
| "safe_value v = True"

definition safe_number :: "int option \<Rightarrow> bool" where
  "safe_number a = (case a of None \<Rightarrow> True | Some n \<Rightarrow> safe_integer n)"

definition safe_params :: "(string \<times> jsval) list option \<Rightarrow> bool" where
  "safe_params a = (case a of None \<Rightarrow> True | Some ps \<Rightarrow> list_all (\<lambda>(k, v). safe_value v) ps)"

subsection \<open>\<open>JSON.stringify\<close>\<close>

definition json_escape :: "char \<Rightarrow> string" where
  "json_escape c =
     (if c = CHR 0x22 then [CHR 0x5C, CHR 0x22]
      else if c = CHR 0x5C then [CHR 0x5C, CHR 0x5C]
      else if c = CHR 0x08 then [CHR 0x5C, CHR ''b'']
      else if c = CHR 0x09 then [CHR 0x5C, CHR ''t'']
      else if c = CHR 0x0A then [CHR 0x5C, CHR ''n'']
      else if c = CHR 0x0C then [CHR 0x5C, CHR ''f'']
      else if c = CHR 0x0D then [CHR 0x5C, CHR ''r'']
      else if (of_char c :: nat) < 32
        then [CHR 0x5C, CHR ''u'', CHR ''0'', CHR ''0'',
              ''0123456789abcdef'' ! (of_char c div 16),
              ''0123456789abcdef'' ! (of_char c mod 16)]
      else [c])"

definition json_quote :: "string \<Rightarrow> string" where
  "json_quote s = CHR 0x22 # concat (map json_escape s) @ [CHR 0x22]"

text \<open>
  \<open>JSON.stringify\<close> yields \<open>undefined\<close> (\<open>None\<close>) on \<open>undefined\<close>; inside an array
  \<open>undefined\<close> is written \<open>null\<close>, and a property whose value is \<open>undefined\<close> is left
  out of the object.
\<close>

fun JSON_stringify :: "jsval \<Rightarrow> string option" where
  "JSON_stringify JUndefined = None"
| "JSON_stringify JNull = Some ''null''"
| "JSON_stringify (JBool b) = Some (if b then ''true'' else ''false'')"
| "JSON_stringify (JNum n) = Some (number_toString n)"
| "JSON_stringify (JStr s) = Some (json_quote s)"
| "JSON_stringify (JArr xs) =
     Some (''['' @ join '',''
        (map (\<lambda>x. case JSON_stringify x of None \<Rightarrow> ''null'' | Some s \<Rightarrow> s) xs) @ '']'')"
| "JSON_stringify (JObj ps) =
     Some (''{'' @ join '',''
        (concat (map (\<lambda>(k, v). case JSON_stringify v of None \<Rightarrow> []
                                  | Some s \<Rightarrow> [json_quote k @ '':'' @ s]) ps)) @ ''}'')"

text \<open>The keys that \<open>JSON.stringify\<close> writes for an object with properties \<open>ps\<close>.\<close>

definition json_member_keys :: "(string \<times> jsval) list \<Rightarrow> string list" where
  "json_member_keys ps = map fst (filter (\<lambda>(k, v). JSON_stringify v \<noteq> None) ps)"

subsection \<open>\<open>URLSearchParams\<close>\<close>

text \<open>
  The \<open>application/x-www-form-urlencoded\<close> serialiser behind
  \<open>URLSearchParams.toString\<close>: letters, digits and \<open>* - . _\<close> stay, a space becomes
  \<open>+\<close>, every other byte is percent-encoded.
\<close>

definition urlencode_char :: "char \<Rightarrow> string" where
  "urlencode_char c =
     (let n = (of_char c :: nat) in
      if (48 \<le> n \<and> n \<le> 57) \<or> (65 \<le> n \<and> n \<le> 90) \<or> (97 \<le> n \<and> n \<le> 122)
         \<or> c = CHR ''*'' \<or> c = CHR ''-'' \<or> c = CHR ''.'' \<or> c = CHR ''_'' then [c]
      else if c = CHR '' '' then ''+''
      else [CHR ''%'', ''0123456789ABCDEF'' ! (n div 16), ''0123456789ABCDEF'' ! (n mod 16)])"

definition urlencode :: "string \<Rightarrow> string" where
  "urlencode s = concat (map urlencode_char s)"

text \<open>
  \<open>new URLSearchParams(params).toString()\<close> for a record \<open>params\<close>: one \<open>name=value\<close>
  pair per own property, the value converted to a string, joined by \<open>&\<close>.
\<close>

definition URLSearchParams_toString :: "(string \<times> jsval) list \<Rightarrow> string" where
  "URLSearchParams_toString ps =
     join ''&'' (map (\<lambda>(k, v). urlencode k @ ''='' @ urlencode (ToString v)) ps)"

section \<open>The HTTP request gateway: \<open>ApiBase\<close>\<close>

datatype http_method = GET | POST | PUT | DELETE | PATCH

text \<open>A thrown JavaScript error object: its \<open>name\<close> and its \<open>message\<close>.\<close>

datatype thrown = Thrown (err_name: string) (err_message: string)

text \<open>The \<open>options\<close> argument of \<open>makeRequest\<close>; an absent \<open>data\<close> is \<open>JUndefined\<close>.\<close>

record request_options =
  opt_method :: "http_method option"
  opt_data :: jsval
  opt_headers :: "(string \<times> string) list option"
  opt_params :: "(string \<times> jsval) list option"

definition no_options :: request_options where
  "no_options = \<lparr>opt_method = None, opt_data = JUndefined, opt_headers = None, opt_params = None\<rparr>"

text \<open>What \<open>fetch\<close> receives: the URL and the \<open>RequestInit\<close>.\<close>

record request =
  req_url :: string
  req_method :: http_method
  req_headers :: "(string \<times> string) list"
  req_body :: "string option"

text \<open>
  What \<open>fetch\<close> resolves to. \<open>response.ok\<close> is defined by the Fetch standard as a
  status in the range 200 to 299. Reading the body as JSON or as text can itself fail.
\<close>

record response =
  status :: nat
  content_type :: "string option"
  json_body :: "thrown + jsval"
  text_body :: "thrown + string"

definition response_ok :: "response \<Rightarrow> bool" where
  "response_ok r = (200 \<le> status r \<and> status r \<le> 299)"

text \<open>
  The transport is a parameter: \<open>fetch\<close> either rejects with a thrown value or resolves
  to a response.
\<close>

type_synonym fetch_fn = "request \<Rightarrow> thrown + response"

record api_base =
  baseUrl :: string

text \<open>
  The constructor, given its optional argument and the value of
  \<open>process.env.NEXT_PUBLIC_API_BASE\<close>.
\<close>

definition ApiBase_constructor :: "string option \<Rightarrow> string option \<Rightarrow> api_base" where
  "ApiBase_constructor arg env =
     \<lparr>baseUrl = or_else arg (or_else env ''http://localhost:3000'')\<rparr>"

text \<open>The object spread \<open>{'Content-Type': 'application/json', ...headers}\<close>.\<close>

fun set_header :: "string \<Rightarrow> string \<Rightarrow> (string \<times> string) list \<Rightarrow> (string \<times> string) list" where
  "set_header k v [] = [(k, v)]"
| "set_header k v ((k', v') # hs) =
     (if k = k' then (k, v) # hs else (k', v') # set_header k v hs)"

definition spread_headers :: "(string \<times> string) list \<Rightarrow> (string \<times> string) list" where
  "spread_headers hs =
     foldl (\<lambda>acc (k, v). set_header k v acc) [(''Content-Type'', ''application/json'')] hs"

text \<open>
  The first half of \<open>makeRequest\<close>: the URL and the request configuration built from
  the path and the options.
\<close>

definition build_request :: "api_base \<Rightarrow> string \<Rightarrow> request_options \<Rightarrow> request" where
  "build_request api path options =
     (let method = (case opt_method options of None \<Rightarrow> GET | Some m \<Rightarrow> m);
          data = opt_data options;
          headers = (case opt_headers options of None \<Rightarrow> [] | Some hs \<Rightarrow> hs);
          url = baseUrl api @ path;
          url' = (case opt_params options of
                    None \<Rightarrow> url
                  | Some ps \<Rightarrow> url @ ''?'' @ URLSearchParams_toString ps)
      in \<lparr>req_url = url',
          req_method = method,
          req_headers = spread_headers headers,
          req_body = (if truthy data \<and> method \<in> set [POST, PUT, PATCH]
                      then JSON_stringify data else None)\<rparr>)"

text \<open>
  The second half: the \<open>try\<close> block. Whatever is thrown inside is logged with
  \<open>console.error\<close> and thrown again unchanged, so the failure is the \<open>Inl\<close> value.
\<close>

definition receive :: "thrown + response \<Rightarrow> thrown + jsval" where
  "receive r =
     (case r of
        Inl e \<Rightarrow> Inl e
      | Inr resp \<Rightarrow>
          if \<not> response_ok resp
          then Inl (Thrown ''Error'' (''HTTP error! status: '' @ digits (status resp)))
          else (case content_type resp of
                  None \<Rightarrow> map_sum id JStr (text_body resp)
                | Some ct \<Rightarrow>
                    if ct \<noteq> [] \<and> str_includes ct ''application/json''
                    then json_body resp
                    else map_sum id JStr (text_body resp)))"

definition makeRequest :: "api_base \<Rightarrow> fetch_fn \<Rightarrow> string \<Rightarrow> request_options \<Rightarrow> thrown + jsval" where
  "makeRequest api fetch path options = receive (fetch (build_request api path options))"

section \<open>The resource client: \<open>UserService\<close>\<close>

datatype user_status = active | inactive | pending

fun status_string :: "user_status \<Rightarrow> string" where
  "status_string active = ''active''"
| "status_string inactive = ''inactive''"
| "status_string pending = ''pending''"

definition basePath :: string where
  "basePath = ''/api/users''"

text \<open>\<open>new UserService()\<close> calls \<open>super()\<close> without an argument.\<close>

definition UserService_constructor :: "string option \<Rightarrow> api_base" where
  "UserService_constructor env = ApiBase_constructor None env"

text \<open>
  Each method is the call of \<open>makeRequest\<close> it makes. A string argument that a read hook
  forwards is a \<open>string option\<close>, \<open>None\<close> being a run-time \<open>undefined\<close>; a page number
  or size is an \<open>int option\<close>.
\<close>

definition createUser :: "api_base \<Rightarrow> fetch_fn \<Rightarrow> jsval \<Rightarrow> thrown + jsval" where
  "createUser api fetch userData =
     makeRequest api fetch basePath (no_options\<lparr>opt_method := Some POST, opt_data := userData\<rparr>)"

definition getUserById :: "api_base \<Rightarrow> fetch_fn \<Rightarrow> string option \<Rightarrow> thrown + jsval" where
  "getUserById api fetch uid = makeRequest api fetch (basePath @ ''/'' @ template uid) no_options"

definition getUsers :: "api_base \<Rightarrow> fetch_fn \<Rightarrow> (string \<times> jsval) list option \<Rightarrow> thrown + jsval" where
  "getUsers api fetch params =
     makeRequest api fetch basePath (no_options\<lparr>opt_method := Some GET, opt_params := params\<rparr>)"

definition searchUsers ::
  "api_base \<Rightarrow> fetch_fn \<Rightarrow> string option \<Rightarrow> int option \<Rightarrow> int option \<Rightarrow> thrown + jsval" where
  "searchUsers api fetch searchTerm pageNumber pageSize =
     makeRequest api fetch (basePath @ ''/search'')
       (no_options\<lparr>opt_method := Some GET,
          opt_params := Some
            [(''searchTerm'', str_arg searchTerm),
             (''pageNumber'', JStr (or_else (map_option number_toString pageNumber) ''1'')),
             (''pageSize'', JStr (or_else (map_option number_toString pageSize) ''10''))]\<rparr>)"

definition getUsersByRole ::
  "api_base \<Rightarrow> fetch_fn \<Rightarrow> string option \<Rightarrow> int option \<Rightarrow> int option \<Rightarrow> thrown + jsval" where
  "getUsersByRole api fetch roleId pageNumber pageSize =
     makeRequest api fetch (basePath @ ''/role/'' @ template roleId)
       (no_options\<lparr>opt_method := Some GET,
          opt_params := Some
            [(''pageNumber'', JStr (or_else (map_option number_toString pageNumber) ''1'')),
             (''pageSize'', JStr (or_else (map_option number_toString pageSize) ''10''))]\<rparr>)"

definition getActiveUsers ::
  "api_base \<Rightarrow> fetch_fn \<Rightarrow> int option \<Rightarrow> int option \<Rightarrow> thrown + jsval" where
  "getActiveUsers api fetch pageNumber pageSize =
     makeRequest api fetch (basePath @ ''/active'')
       (no_options\<lparr>opt_method := Some GET,
          opt_params := Some
            [(''pageNumber'', JStr (or_else (map_option number_toString pageNumber) ''1'')),
             (''pageSize'', JStr (or_else (map_option number_toString pageSize) ''10''))]\<rparr>)"

definition updateUser :: "api_base \<Rightarrow> fetch_fn \<Rightarrow> string \<Rightarrow> jsval \<Rightarrow> thrown + jsval" where
  "updateUser api fetch uid userData =
     makeRequest api fetch (basePath @ ''/'' @ uid)
       (no_options\<lparr>opt_method := Some PUT, opt_data := userData\<rparr>)"

definition deleteUser :: "api_base \<Rightarrow> fetch_fn \<Rightarrow> string \<Rightarrow> thrown + jsval" where
  "deleteUser api fetch uid =
     makeRequest api fetch (basePath @ ''/'' @ uid) (no_options\<lparr>opt_method := Some DELETE\<rparr>)"

definition updateUserStatus ::
  "api_base \<Rightarrow> fetch_fn \<Rightarrow> string \<Rightarrow> user_status \<Rightarrow> thrown + jsval" where
  "updateUserStatus api fetch uid st =
     makeRequest api fetch (basePath @ ''/'' @ uid @ ''/status'')
       (no_options\<lparr>opt_method := Some PATCH,
          opt_data := JObj [(''status'', JStr (status_string st))]\<rparr>)"

section \<open>The cache-key registry: \<open>QUERY_KEYS\<close>\<close>

text \<open>A query key is an array of segments.\<close>

definition QUERY_KEYS_users :: "jsval list" where
  "QUERY_KEYS_users = [JStr ''users'']"

definition QUERY_KEYS_user :: "string option \<Rightarrow> jsval list" where
  "QUERY_KEYS_user uid = [JStr ''users'', str_arg uid]"

definition QUERY_KEYS_usersPaged :: "(string \<times> jsval) list option \<Rightarrow> jsval list" where
  "QUERY_KEYS_usersPaged params = [JStr ''users'', JStr ''paged'', obj_arg params]"

definition QUERY_KEYS_searchUsers :: "string option \<Rightarrow> int option \<Rightarrow> int option \<Rightarrow> jsval list" where
  "QUERY_KEYS_searchUsers searchTerm pageNumber pageSize =
     [JStr ''users'', JStr ''search'', str_arg searchTerm, num_arg pageNumber, num_arg pageSize]"

definition QUERY_KEYS_usersByRole :: "string option \<Rightarrow> int option \<Rightarrow> int option \<Rightarrow> jsval list" where
  "QUERY_KEYS_usersByRole roleId pageNumber pageSize =
     [JStr ''users'', JStr ''role'', str_arg roleId, num_arg pageNumber, num_arg pageSize]"

definition QUERY_KEYS_activeUsers :: "int option \<Rightarrow> int option \<Rightarrow> jsval list" where
  "QUERY_KEYS_activeUsers pageNumber pageSize =
     [JStr ''users'', JStr ''active'', num_arg pageNumber, num_arg pageSize]"

text \<open>
  The registry as one function of the operation kind and its parameters, the
  \<open>keyFor(operationKind, params)\<close> of the specification.
\<close>

datatype query_op =
    AllUsersList
  | SingleUserById "string option"
  | PagedUsers "(string \<times> jsval) list option"
  | SearchUsers "string option" "int option" "int option"
  | UsersByRole "string option" "int option" "int option"
  | ActiveUsers "int option" "int option"

fun keyFor :: "query_op \<Rightarrow> jsval list" where
  "keyFor AllUsersList = QUERY_KEYS_users"
| "keyFor (SingleUserById uid) = QUERY_KEYS_user uid"
| "keyFor (PagedUsers params) = QUERY_KEYS_usersPaged params"
| "keyFor (SearchUsers searchTerm pageNumber pageSize) =
     QUERY_KEYS_searchUsers searchTerm pageNumber pageSize"
| "keyFor (UsersByRole roleId pageNumber pageSize) =
     QUERY_KEYS_usersByRole roleId pageNumber pageSize"
| "keyFor (ActiveUsers pageNumber pageSize) = QUERY_KEYS_activeUsers pageNumber pageSize"

section \<open>The query cache of the caching library\<close>

text \<open>
  Modelled from the spec: the caching library (\<open>@tanstack/react-query\<close>) that the hooks
  configure is not part of the sources. The cache maps a query key, compared by value, to
  an entry: the last value read and a flag set when the entry is invalidated (stale). An
  invalidated entry keeps its stored value.
\<close>

record cache_entry =
  entry_data :: jsval
  isInvalidated :: bool

type_synonym query_cache = "jsval list \<Rightarrow> cache_entry option"

text \<open>
  Modelled from the spec: the key filter of the library, which is absent from the sources;
  the rule is the one the library documents for a filter that is not \<open>exact\<close>. A query
  key matches a filter key when they are equal, or when both are arrays or objects and
  every own entry of the filter matches the entry of the query key under the same name
  (\<open>undefined\<close> where the query key has none). For a filter whose segments are strings
  this is: the filter is a prefix of the query key.
\<close>

definition own_entries :: "jsval \<Rightarrow> (string \<times> jsval) list option" where
  "own_entries a =
     (case a of
        JArr xs \<Rightarrow> Some (zip (map digits [0..<length xs]) xs)
      | JObj ps \<Rightarrow> Some ps
      | _ \<Rightarrow> None)"

definition get_entry :: "(string \<times> jsval) list \<Rightarrow> string \<Rightarrow> jsval" where
  "get_entry ps k = (case map_of ps k of None \<Rightarrow> JUndefined | Some v \<Rightarrow> v)"

function partialMatchKey :: "jsval \<Rightarrow> jsval \<Rightarrow> bool" where
  "partialMatchKey a b =
     (if a = b then True
      else (case own_entries a of
              None \<Rightarrow> False
            | Some pa \<Rightarrow>
                (case own_entries b of
                   None \<Rightarrow> False
                 | Some pb \<Rightarrow> list_all (\<lambda>(k, v). partialMatchKey (get_entry pa k) v) pb)))"
  by pat_completeness auto
termination
proof (relation "measure (\<lambda>(a, b). size b)")
  show "wf (measure (\<lambda>(a, b). size b))" by simp
next
  fix a b :: jsval and pa pb :: "(string \<times> jsval) list" and z :: "string \<times> jsval" and k v
  assume b: "own_entries b = Some pb" and z: "z \<in> set pb" and kv: "(k, v) = z"
  have "size v < size b"
  proof (cases b)
    case (JArr xs)
    with b z kv have "v \<in> set xs"
      by (auto simp: own_entries_def dest: set_zip_rightD)
    then have "size v \<le> size_list size xs"
      by (simp add: size_list_estimation')
    with JArr show ?thesis by simp
  next
    case (JObj ps)
    with b z kv have "(k, v) \<in> set ps"
      by (auto simp: own_entries_def)
    then have "size v \<le> size_list (size_prod (\<lambda>x. 0) size) ps"
      by (rule size_list_estimation') simp
    with JObj show ?thesis by simp
  qed (use b in \<open>auto simp: own_entries_def\<close>)
  then show "((get_entry pa k, v), (a, b)) \<in> measure (\<lambda>(a, b). size b)" by simp
qed

declare partialMatchKey.simps [simp del]

text \<open>
  Modelled from the spec: \<open>queryClient.invalidateQueries({ queryKey })\<close> of the library,
  absent from the sources: every cached entry whose key matches the filter key is marked
  invalidated; its data stays. (The background refetch of mounted queries that the
  library starts afterwards is a later network event and is not modelled.)
\<close>

definition invalidateQueries :: "jsval list \<Rightarrow> query_cache \<Rightarrow> query_cache" where
  "invalidateQueries filterKey cache =
     (\<lambda>key. case cache key of
               None \<Rightarrow> None
             | Some e \<Rightarrow>
                 Some (if partialMatchKey (JArr key) (JArr filterKey)
                       then e\<lparr>isInvalidated := True\<rparr> else e))"

subsection \<open>Reads\<close>

text \<open>The options object a read hook passes to \<open>useQuery\<close>; an absent \<open>enabled\<close> is \<open>None\<close>.\<close>

record query_options =
  queryKey :: "jsval list"
  queryFn :: "fetch_fn \<Rightarrow> thrown + jsval"
  enabled :: "bool option"

text \<open>
  Modelled from the spec: \<open>useQuery\<close> of the library, absent from the sources. A query
  whose \<open>enabled\<close> option is false is never issued: its query function is not called and
  no error is reported (\<open>None\<close>). Otherwise, \<open>enabled\<close> defaulting to true, the query
  function is called when the entry has to be fetched.
\<close>

definition useQuery_issue :: "query_options \<Rightarrow> fetch_fn \<Rightarrow> (thrown + jsval) option" where
  "useQuery_issue options fetch =
     (if (case enabled options of None \<Rightarrow> True | Some b \<Rightarrow> b)
      then Some (queryFn options fetch) else None)"

subsection \<open>Writes\<close>

text \<open>
  The options object a write hook passes to \<open>useMutation\<close>. A callback the hook does not
  supply is \<open>None\<close>.
\<close>

record ('v, 'c) mutation_options =
  mutationFn :: "'v \<Rightarrow> fetch_fn \<Rightarrow> thrown + jsval"
  onMutate :: "('v \<Rightarrow> query_cache \<Rightarrow> 'c \<times> query_cache) option"
  onSuccess :: "(jsval \<Rightarrow> 'v \<Rightarrow> query_cache \<Rightarrow> query_cache) option"
  onError :: "(thrown \<Rightarrow> 'v \<Rightarrow> 'c option \<Rightarrow> query_cache \<Rightarrow> query_cache) option"

text \<open>
  Modelled from the spec: the life cycle of a mutation in the library, absent from the
  sources. \<open>onMutate\<close> runs before the network call and may rewrite the cache and return
  a context; then the mutation function runs; on success \<open>onSuccess\<close> runs, on failure
  \<open>onError\<close> runs with the context. \<open>mutation_start\<close> gives the cache while the call is
  pending, \<open>mutate\<close> the outcome and the cache after the call has settled.
\<close>

definition mutation_start ::
  "('v, 'c) mutation_options \<Rightarrow> 'v \<Rightarrow> query_cache \<Rightarrow> 'c option \<times> query_cache" where
  "mutation_start options variables cache =
     (case onMutate options of
        None \<Rightarrow> (None, cache)
      | Some f \<Rightarrow> (case f variables cache of (ctx, cache') \<Rightarrow> (Some ctx, cache')))"

definition mutation_settle ::
  "('v, 'c) mutation_options \<Rightarrow> 'v \<Rightarrow> 'c option \<Rightarrow> thrown + jsval \<Rightarrow> query_cache \<Rightarrow> query_cache" where
  "mutation_settle options variables ctx outcome cache =
     (case outcome of
        Inr data \<Rightarrow> (case onSuccess options of None \<Rightarrow> cache | Some f \<Rightarrow> f data variables cache)
      | Inl err \<Rightarrow> (case onError options of None \<Rightarrow> cache | Some f \<Rightarrow> f err variables ctx cache))"

definition mutate ::
  "('v, 'c) mutation_options \<Rightarrow> fetch_fn \<Rightarrow> 'v \<Rightarrow> query_cache \<Rightarrow> (thrown + jsval) \<times> query_cache" where
  "mutate options fetch variables cache =
     (case mutation_start options variables cache of
        (ctx, pending_cache) \<Rightarrow>
          (let outcome = mutationFn options variables fetch
           in (outcome, mutation_settle options variables ctx outcome pending_cache)))"

section \<open>The hooks of \<open>userQuery.ts\<close>\<close>

text \<open>
  Each hook is the options object it builds. \<open>svc\<close> is the \<open>userService\<close> singleton.
  \<open>!!x\<close> is the truthiness of \<open>x\<close>.
\<close>

definition useUsers :: "api_base \<Rightarrow> (string \<times> jsval) list option \<Rightarrow> query_options" where
  "useUsers svc params =
     \<lparr>queryKey = QUERY_KEYS_usersPaged params,
      queryFn = (\<lambda>fetch. getUsers svc fetch params),
      enabled = None\<rparr>"

definition useUser :: "api_base \<Rightarrow> string option \<Rightarrow> query_options" where
  "useUser svc uid =
     \<lparr>queryKey = QUERY_KEYS_user uid,
      queryFn = (\<lambda>fetch. getUserById svc fetch uid),
      enabled = Some (truthy (str_arg uid))\<rparr>"

definition useSearchUsers ::
  "api_base \<Rightarrow> string option \<Rightarrow> int option \<Rightarrow> int option \<Rightarrow> query_options" where
  "useSearchUsers svc searchTerm pageNumber pageSize =
     \<lparr>queryKey = QUERY_KEYS_searchUsers searchTerm pageNumber pageSize,
      queryFn = (\<lambda>fetch. searchUsers svc fetch searchTerm pageNumber pageSize),
      enabled = Some (truthy (str_arg searchTerm))\<rparr>"

definition useUsersByRole ::
  "api_base \<Rightarrow> string option \<Rightarrow> int option \<Rightarrow> int option \<Rightarrow> query_options" where
  "useUsersByRole svc roleId pageNumber pageSize =
     \<lparr>queryKey = QUERY_KEYS_usersByRole roleId pageNumber pageSize,
      queryFn = (\<lambda>fetch. getUsersByRole svc fetch roleId pageNumber pageSize),
      enabled = Some (truthy (str_arg roleId))\<rparr>"

definition useActiveUsers :: "api_base \<Rightarrow> int option \<Rightarrow> int option \<Rightarrow> query_options" where
  "useActiveUsers svc pageNumber pageSize =
     \<lparr>queryKey = QUERY_KEYS_activeUsers pageNumber pageSize,
      queryFn = (\<lambda>fetch. getActiveUsers svc fetch pageNumber pageSize),
      enabled = None\<rparr>"

definition useCreateUser :: "api_base \<Rightarrow> (jsval, unit) mutation_options" where
  "useCreateUser svc =
     \<lparr>mutationFn = (\<lambda>userData fetch. createUser svc fetch userData),
      onMutate = None,
      onSuccess = Some (\<lambda>data variables cache. invalidateQueries QUERY_KEYS_users cache),
      onError = None\<rparr>"

definition useUpdateUser :: "api_base \<Rightarrow> (string \<times> jsval, unit) mutation_options" where
  "useUpdateUser svc =
     \<lparr>mutationFn = (\<lambda>(uid, data) fetch. updateUser svc fetch uid data),
      onMutate = None,
      onSuccess = Some (\<lambda>data variables cache.
        invalidateQueries QUERY_KEYS_users
          (invalidateQueries (QUERY_KEYS_user (Some (fst variables))) cache)),
      onError = None\<rparr>"

definition useDeleteUser :: "api_base \<Rightarrow> (string, unit) mutation_options" where
  "useDeleteUser svc =
     \<lparr>mutationFn = (\<lambda>uid fetch. deleteUser svc fetch uid),
      onMutate = None,
      onSuccess = Some (\<lambda>data variables cache. invalidateQueries QUERY_KEYS_users cache),
      onError = None\<rparr>"

definition useUpdateUserStatus :: "api_base \<Rightarrow> (string \<times> user_status, unit) mutation_options" where
  "useUpdateUserStatus svc =
     \<lparr>mutationFn = (\<lambda>(uid, st) fetch. updateUserStatus svc fetch uid st),
      onMutate = None,
      onSuccess = Some (\<lambda>data variables cache.
        invalidateQueries QUERY_KEYS_users
          (invalidateQueries (QUERY_KEYS_user (Some (fst variables))) cache)),
      onError = None\<rparr>"

section \<open>Structural equality of keys\<close>

text \<open>
  Structural equality of JavaScript data: arrays are equal when they have the same length
  and equal elements; objects are equal when every property reads the same value in both
  (a property an object does not have reads \<open>undefined\<close>), in whatever order the
  properties were written; anything else is equal only to itself.
\<close>

function (sequential) structurally_equal :: "jsval \<Rightarrow> jsval \<Rightarrow> bool" where
  "structurally_equal (JArr xs) (JArr ys) =
     (length xs = length ys \<and> list_all (\<lambda>(x, y). structurally_equal x y) (zip xs ys))"
| "structurally_equal (JObj ps) (JObj qs) =
     (list_all (\<lambda>(k, v). structurally_equal v (get_entry qs k)) ps
      \<and> list_all (\<lambda>(k, w). k \<in> set (map fst ps) \<or> w = JUndefined) qs)"
| "structurally_equal a b = (a = b)"
  by pat_completeness auto
termination
proof (relation "measure (\<lambda>(a, b). size a)")
  show "wf (measure (\<lambda>(a, b). size a))" by simp
next
  fix xs ys :: "jsval list" and z :: "jsval \<times> jsval" and x y
  assume "z \<in> set (zip xs ys)" and "(x, y) = z"
  then have "x \<in> set xs" by (auto dest: set_zip_leftD)
  then have "size x \<le> size_list size xs" by (simp add: size_list_estimation')
  then show "((x, y), (JArr xs, JArr ys)) \<in> measure (\<lambda>(a, b). size a)" by simp
next
  fix ps qs :: "(string \<times> jsval) list" and z :: "string \<times> jsval" and k v
  assume "z \<in> set ps" and "(k, v) = z"
  then have "(k, v) \<in> set ps" by simp
  then have "size v \<le> size_list (size_prod (\<lambda>x. 0) size) ps"
    by (rule size_list_estimation') simp
  then show "((v, get_entry qs k), (JObj ps, JObj qs)) \<in> measure (\<lambda>(a, b). size a)"
    by simp
qed

definition key_equal :: "jsval list \<Rightarrow> jsval list \<Rightarrow> bool" where
  "key_equal k k' = structurally_equal (JArr k) (JArr k')"

text \<open>
  Two read operations are the same when they are of the same kind and their parameters
  have equal values, field by field.
\<close>

fun same_operation :: "query_op \<Rightarrow> query_op \<Rightarrow> bool" where
  "same_operation AllUsersList AllUsersList = True"
| "same_operation (SingleUserById u) (SingleUserById u') = (u = u')"
| "same_operation (PagedUsers p) (PagedUsers p') = structurally_equal (obj_arg p) (obj_arg p')"
| "same_operation (SearchUsers t n s) (SearchUsers t' n' s') = (t = t' \<and> n = n' \<and> s = s')"
| "same_operation (UsersByRole r n s) (UsersByRole r' n' s') = (r = r' \<and> n = n' \<and> s = s')"
| "same_operation (ActiveUsers n s) (ActiveUsers n' s') = (n = n' \<and> s = s')"
| "same_operation a b = False"

text \<open>Reading a property of an object, and the status a cached single-user entry shows.\<close>

definition get_prop :: "jsval \<Rightarrow> string \<Rightarrow> jsval" where
  "get_prop v k = (case v of JObj ps \<Rightarrow> get_entry ps k | _ \<Rightarrow> JUndefined)"

definition cached_status :: "query_cache \<Rightarrow> string \<Rightarrow> jsval option" where
  "cached_status cache uid =
     map_option (\<lambda>e. get_prop (get_prop (entry_data e) ''data'') ''status'')
       (cache (QUERY_KEYS_user (Some uid)))"

section \<open>Concrete inputs\<close>

text \<open>The \<open>userService\<close> singleton when the environment value is unset.\<close>

definition example_api :: api_base where
  "example_api = UserService_constructor None"

text \<open>A \<open>POST\<close> whose supplied data is the number zero.\<close>

definition post_zero :: request_options where
  "post_zero = no_options\<lparr>opt_method := Some POST, opt_data := JNum 0\<rparr>"

text \<open>A transport that answers every request with status 500.\<close>

definition fetch_status_500 :: fetch_fn where
  "fetch_status_500 r =
     Inr \<lparr>status = 500, content_type = Some ''text/plain'',
          json_body = Inl (Thrown ''SyntaxError'' ''Unexpected token''),
          text_body = Inr ''Internal Server Error''\<rparr>"

text \<open>A transport that cannot complete and rejects with the given error.\<close>

definition fetch_rejecting :: "thrown \<Rightarrow> fetch_fn" where
  "fetch_rejecting e r = Inl e"

text \<open>A \<open>PATCH\<close> and a \<open>DELETE\<close>, each with an object as data.\<close>

definition patch_status :: request_options where
  "patch_status =
     no_options\<lparr>opt_method := Some PATCH, opt_data := JObj [(''status'', JStr ''inactive'')]\<rparr>"

definition delete_with_data :: request_options where
  "delete_with_data =
     no_options\<lparr>opt_method := Some DELETE, opt_data := JObj [(''status'', JStr ''inactive'')]\<rparr>"

text \<open>
  A transport that answers every request with status 200 and the requested URL as its
  text, so that the result of a call shows the URL that was requested.
\<close>

definition fetch_echo_url :: fetch_fn where
  "fetch_echo_url r =
     Inr \<lparr>status = 200, content_type = Some ''text/plain'',
          json_body = Inl (Thrown ''SyntaxError'' ''Unexpected token''),
          text_body = Inr (req_url r)\<rparr>"

text \<open>A cached single-user response for user \<open>1\<close>, whose status is \<open>active\<close>.\<close>

definition user1_active :: jsval where
  "user1_active =
     JObj [(''data'', JObj [(''id'', JStr ''1''), (''email'', JStr ''a@x.com''),
                            (''name'', JStr ''A''), (''status'', JStr ''active''),
                            (''createdAt'', JStr ''2024-01-01T00:00:00Z''),
                            (''updatedAt'', JStr ''2024-01-01T00:00:00Z'')]),
           (''message'', JStr ''OK'')]"

definition cache_user1 :: query_cache where
  "cache_user1 =
     Map.empty(QUERY_KEYS_user (Some ''1'') \<mapsto>
       \<lparr>entry_data = user1_active, isInvalidated = False\<rparr>)"

text \<open>A create request without \<open>phone\<close>, and the server's answer to it.\<close>

definition new_user :: jsval where
  "new_user =
     JObj [(''email'', JStr ''a@x.com''), (''name'', JStr ''A''), (''password'', JStr ''p'')]"

definition created_response :: jsval where
  "created_response =
     JObj [(''data'', JObj [(''id'', JStr ''1''), (''email'', JStr ''a@x.com''),
                            (''name'', JStr ''A''), (''status'', JStr ''pending'')]),
           (''message'', JStr ''Created'')]"

text \<open>
  A server that answers 201 to exactly one request, the \<open>POST\<close> of that user to
  \<open>/api/users\<close>, and is unreachable for anything else.
\<close>

definition fetch_created :: fetch_fn where
  \<open>fetch_created r =
     (if r = \<lparr>req_url = ''http://localhost:3000/api/users'',
               req_method = POST,
               req_headers = [(''Content-Type'', ''application/json'')],
               req_body = Some ''{"email":"a@x.com","name":"A","password":"p"}''\<rparr>
      then Inr \<lparr>status = 201, content_type = Some ''application/json; charset=utf-8'',
                json_body = Inr created_response, text_body = Inr []\<rparr>
      else Inl (Thrown ''TypeError'' ''Failed to fetch''))\<close>

text \<open>A cache holding the users list and the first unfiltered page, both fresh.\<close>

definition cache_lists :: query_cache where
  "cache_lists =
     Map.empty(QUERY_KEYS_users \<mapsto> \<lparr>entry_data = JArr [], isInvalidated = False\<rparr>,
               QUERY_KEYS_usersPaged None \<mapsto>
                 \<lparr>entry_data = JObj [(''data'', JArr [])], isInvalidated = False\<rparr>)"

section \<open>Properties of the gateway\<close>

lemma or_else_simps [simp]:
  "or_else None d = d" "or_else (Some []) d = d" "s \<noteq> [] \<Longrightarrow> or_else (Some s) d = s"
  by (simp_all add: or_else_def)

lemma truthy_stringify: "truthy d \<Longrightarrow> \<exists>y. JSON_stringify d = Some y"
  by (cases d) simp_all

lemma req_body_build:
  "req_body (build_request api path options) =
     (if truthy (opt_data options) \<and> opt_method options \<in> {Some POST, Some PUT, Some PATCH}
      then JSON_stringify (opt_data options) else None)"
  by (auto simp: build_request_def Let_def split: option.splits)

lemma req_url_build:
  "req_url (build_request api path options) =
     baseUrl api @ path @
       (case opt_params options of None \<Rightarrow> [] | Some ps \<Rightarrow> ''?'' @ URLSearchParams_toString ps)"
  by (auto simp: build_request_def Let_def split: option.splits)

lemma digits_500: "digits 500 = ''500''"
  by code_simp

text \<open>
  C10. A gateway constructed with the empty string as its base-address argument is the
  gateway constructed with no argument: its base address is the environment value, or
  \<open>http://localhost:3000\<close> when the environment value is unset (or itself empty).
  The object has no operation that changes the address: every request built from it
  starts with that address followed by the path.
\<close>

theorem constructor_empty_argument:
  "ApiBase_constructor (Some []) env = ApiBase_constructor None env
   \<and> baseUrl (ApiBase_constructor (Some []) env) =
       (case env of None \<Rightarrow> ''http://localhost:3000''
        | Some e \<Rightarrow> if e = [] then ''http://localhost:3000'' else e)
   \<and> (\<exists>rest. req_url (build_request (ApiBase_constructor (Some []) env) path options) =
         baseUrl (ApiBase_constructor (Some []) env) @ path @ rest)"
  by (auto simp: ApiBase_constructor_def req_url_build or_else_def split: option.splits)

theorem constructor_empty_argument_witness:
  "baseUrl (ApiBase_constructor (Some []) None) = ''http://localhost:3000''
   \<and> baseUrl (ApiBase_constructor (Some []) (Some ''https://api.example.com'')) =
       ''https://api.example.com''"
  using constructor_empty_argument [of None, THEN conjunct2, THEN conjunct1]
    constructor_empty_argument [of "Some ''https://api.example.com''",
      THEN conjunct2, THEN conjunct1]
  by simp

text \<open>
  C9. With method \<open>POST\<close>, \<open>PUT\<close> or \<open>PATCH\<close> and a falsy data value (absent, the
  empty string, zero, \<open>null\<close>, or \<open>false\<close>) the request carries no body.
\<close>

theorem falsy_data_no_body:
  "opt_method options \<in> {Some POST, Some PUT, Some PATCH} \<Longrightarrow>
   opt_data options \<in> {JUndefined, JStr [], JNum 0, JNull, JBool False} \<Longrightarrow>
   req_body (build_request api path options) = None"
  by (auto simp: req_body_build)

theorem falsy_data_no_body_witness:
  "req_body (build_request example_api ''/api/users'' post_zero) = None"
  using falsy_data_no_body [of post_zero example_api "''/api/users''"]
  by (simp add: post_zero_def no_options_def)

text \<open>
  C5, as stated, fails: a \<open>POST\<close> whose supplied data is the number zero carries no
  body, although the method is one of \<open>POST\<close>, \<open>PUT\<close>, \<open>PATCH\<close> and data is supplied.
\<close>

theorem body_supplied_counterexample:
  "\<not> ((req_body (build_request example_api ''/api/users'' post_zero) \<noteq> None) =
       (opt_method post_zero \<in> {Some POST, Some PUT, Some PATCH}
        \<and> opt_data post_zero \<noteq> JUndefined))"
  by (simp add: req_body_build post_zero_def no_options_def)

text \<open>
  C5, amended. A body is attached if and only if the method is \<open>POST\<close>, \<open>PUT\<close> or
  \<open>PATCH\<close> and the supplied data is truthy; the body is then the JSON text of the data.
  With \<open>GET\<close> (also by default) and \<open>DELETE\<close> the request never carries a body,
  whatever data the caller supplies.
\<close>

theorem body_attached_iff:
  "(req_body (build_request api path options) \<noteq> None) =
     (opt_method options \<in> {Some POST, Some PUT, Some PATCH} \<and> truthy (opt_data options))
   \<and> (req_body (build_request api path options) \<noteq> None \<longrightarrow>
        req_body (build_request api path options) = JSON_stringify (opt_data options))
   \<and> (opt_method options \<in> {None, Some GET, Some DELETE} \<longrightarrow>
        req_body (build_request api path options) = None)"
  by (auto simp: req_body_build truthy_stringify)

lemma json_quote_status:
  \<open>json_quote ''status'' = ''"status"''\<close> \<open>json_quote ''inactive'' = ''"inactive"''\<close>
  by (simp_all add: json_quote_def json_escape_def)

theorem body_attached_iff_witness:
  \<open>req_body (build_request example_api ''/api/users/1/status'' patch_status) =
     Some ''{"status":"inactive"}''
   \<and> req_body (build_request example_api ''/api/users/1'' delete_with_data) = None\<close>
  using body_attached_iff [of example_api "''/api/users/1/status''" patch_status]
    body_attached_iff [of example_api "''/api/users/1''" delete_with_data]
  by (simp add: patch_status_def delete_with_data_def no_options_def json_quote_status)

text \<open>
  C3, as stated, fails: the gateway defines no error types. A response with status 500
  makes the call fail with a plain \<open>Error\<close> whose only content is its message, and a
  transport that rejects with an error of that name and message gives the very same
  failure.
\<close>

theorem failure_types_counterexample:
  "makeRequest example_api fetch_status_500 ''/api/users/1'' no_options =
     Inl (Thrown ''Error'' ''HTTP error! status: 500'')
   \<and> makeRequest example_api (fetch_rejecting (Thrown ''Error'' ''HTTP error! status: 500''))
        ''/api/users/1'' no_options =
       makeRequest example_api fetch_status_500 ''/api/users/1'' no_options"
  by (simp add: makeRequest_def receive_def response_ok_def fetch_status_500_def
      fetch_rejecting_def digits_500)

text \<open>
  C3, amended. When the transport succeeds and the response status is outside 200..299,
  the call fails with a plain \<open>Error\<close> whose message is \<open>HTTP error! status: \<close>
  followed by the status in decimal; when the transport cannot complete, the call fails
  with the transport's own error, unchanged.
\<close>

theorem makeRequest_failures:
  "(fetch (build_request api path options) = Inr resp \<longrightarrow>
      \<not> (200 \<le> status resp \<and> status resp \<le> 299) \<longrightarrow>
      makeRequest api fetch path options =
        Inl (Thrown ''Error'' (''HTTP error! status: '' @ digits (status resp))))
   \<and> (fetch (build_request api path options) = Inl e \<longrightarrow>
        makeRequest api fetch path options = Inl e)"
  by (simp add: makeRequest_def receive_def response_ok_def)

theorem makeRequest_failures_witness:
  "makeRequest example_api fetch_status_500 ''/api/users/1'' no_options =
     Inl (Thrown ''Error'' ''HTTP error! status: 500'')
   \<and> makeRequest example_api (fetch_rejecting (Thrown ''TypeError'' ''Failed to fetch''))
        ''/api/users/1'' no_options = Inl (Thrown ''TypeError'' ''Failed to fetch'')"
  using makeRequest_failures [of fetch_status_500 example_api "''/api/users/1''" no_options
      "\<lparr>status = 500, content_type = Some ''text/plain'',
          json_body = Inl (Thrown ''SyntaxError'' ''Unexpected token''),
          text_body = Inr ''Internal Server Error''\<rparr>"]
    makeRequest_failures [of "fetch_rejecting (Thrown ''TypeError'' ''Failed to fetch'')"
      example_api "''/api/users/1''" no_options _ "Thrown ''TypeError'' ''Failed to fetch''"]
  by (simp add: fetch_status_500_def fetch_rejecting_def digits_500)

section \<open>Properties of the resource client\<close>

lemma digits_nonempty: "digits n \<noteq> []"
  by (subst digits.simps) simp

lemma digit_char: "k < 10 \<Longrightarrow> urlencode_char (''0123456789'' ! k) = [''0123456789'' ! k]"
proof -
  assume "k < 10"
  then have "k \<in> {0, 1, 2, 3, 4, 5, 6, 7, 8, 9}" by auto
  then show ?thesis by (auto simp: urlencode_char_def)
qed

lemma urlencode_append: "urlencode (a @ b) = urlencode a @ urlencode b"
  by (simp add: urlencode_def)

lemma urlencode_digits: "urlencode (digits n) = digits n"
proof (induction n rule: digits.induct)
  case (1 n)
  show ?case
  proof (cases "n < 10")
    case True
    then show ?thesis
      by (subst (1 2) digits.simps) (simp add: urlencode_def digit_char)
  next
    case False
    with 1 have ih: "urlencode (digits (n div 10)) = digits (n div 10)" by simp
    have "n mod 10 < 10" by simp
    then have "urlencode [''0123456789'' ! (n mod 10)] = [''0123456789'' ! (n mod 10)]"
      using digit_char [of "n mod 10"] by (simp add: urlencode_def)
    with ih False show ?thesis
      by (subst (1 2) digits.simps) (simp add: urlencode_append)
  qed
qed

lemma urlencode_number: "urlencode (number_toString n) = number_toString n"
  using urlencode_digits by (simp add: number_toString_def urlencode_def urlencode_char_def)

lemma number_nonempty: "number_toString n \<noteq> []"
  by (simp add: number_toString_def digits_nonempty)

lemma urlencode_names:
  "urlencode ''pageNumber'' = ''pageNumber''" "urlencode ''pageSize'' = ''pageSize''"
  "urlencode ''searchTerm'' = ''searchTerm''" "urlencode ''1'' = ''1''"
  "urlencode ''10'' = ''10''"
  by (simp_all add: urlencode_def urlencode_char_def)

lemma page_default:
  "or_else (map_option number_toString p) d =
     (case p of None \<Rightarrow> d | Some n \<Rightarrow> number_toString n)"
  by (cases p) (simp_all add: number_nonempty)

lemma urlencode_page:
  "urlencode d = d \<Longrightarrow>
   urlencode (case p of None \<Rightarrow> d | Some n \<Rightarrow> number_toString n) =
     (case p of None \<Rightarrow> d | Some n \<Rightarrow> number_toString n)"
  by (cases p) (simp_all add: urlencode_number)

lemma ToString_str_arg: "ToString (str_arg a) = template a"
  by (cases a) (simp_all add: str_arg_def template_def)

lemma example_api_url: "baseUrl example_api = ''http://localhost:3000''"
  by (simp add: example_api_def UserService_constructor_def ApiBase_constructor_def)

lemma receive_echo: "receive (fetch_echo_url r) = Inr (JStr (req_url r))"
  by (simp add: receive_def fetch_echo_url_def response_ok_def)

text \<open>
  C2, as stated, fails for the unfiltered list: \<open>getUsers\<close> called without parameters
  requests the bare path, with no query string and so without \<open>pageNumber=1\<close>.
\<close>

theorem list_defaults_counterexample:
  "getUsers example_api fetch_echo_url None = Inr (JStr ''http://localhost:3000/api/users'')
   \<and> \<not> str_includes ''http://localhost:3000/api/users'' ''pageNumber=1''"
  by (simp add: getUsers_def makeRequest_def build_request_def no_options_def basePath_def
      spread_headers_def receive_echo example_api_url)

lemma page_texts: "number_toString 2 = ''2''" "number_toString 25 = ''25''"
  by code_simp+

lemma page_params_text: "URLSearchParams_toString [(''PageNumber'', JNum 2)] = ''PageNumber=2''"
  by code_simp

text \<open>
  C2, amended. The search, by-role and active reads send an omitted page number as
  \<open>pageNumber=1\<close> and an omitted page size as \<open>pageSize=10\<close>; a supplied one, being a
  safe integer, is sent in decimal. The unfiltered list applies no defaults: its query
  string is the caller's parameter object as \<open>URLSearchParams\<close> writes it (the numbers in
  it being safe integers), and there is no query string when the object is omitted.
\<close>

theorem paginated_defaults:
  "safe_number pageNumber \<Longrightarrow> safe_number pageSize \<Longrightarrow> safe_params params \<Longrightarrow>
   searchUsers api fetch searchTerm pageNumber pageSize =
     receive (fetch
       \<lparr>req_url = baseUrl api @ ''/api/users/search?searchTerm=''
          @ urlencode (template searchTerm)
          @ ''&pageNumber='' @ (case pageNumber of None \<Rightarrow> ''1'' | Some n \<Rightarrow> number_toString n)
          @ ''&pageSize='' @ (case pageSize of None \<Rightarrow> ''10'' | Some n \<Rightarrow> number_toString n),
        req_method = GET,
        req_headers = [(''Content-Type'', ''application/json'')],
        req_body = None\<rparr>)
   \<and> getUsersByRole api fetch roleId pageNumber pageSize =
     receive (fetch
       \<lparr>req_url = baseUrl api @ ''/api/users/role/'' @ template roleId
          @ ''?pageNumber='' @ (case pageNumber of None \<Rightarrow> ''1'' | Some n \<Rightarrow> number_toString n)
          @ ''&pageSize='' @ (case pageSize of None \<Rightarrow> ''10'' | Some n \<Rightarrow> number_toString n),
        req_method = GET,
        req_headers = [(''Content-Type'', ''application/json'')],
        req_body = None\<rparr>)
   \<and> getActiveUsers api fetch pageNumber pageSize =
     receive (fetch
       \<lparr>req_url = baseUrl api @ ''/api/users/active''
          @ ''?pageNumber='' @ (case pageNumber of None \<Rightarrow> ''1'' | Some n \<Rightarrow> number_toString n)
          @ ''&pageSize='' @ (case pageSize of None \<Rightarrow> ''10'' | Some n \<Rightarrow> number_toString n),
        req_method = GET,
        req_headers = [(''Content-Type'', ''application/json'')],
        req_body = None\<rparr>)
   \<and> getUsers api fetch params =
     receive (fetch
       \<lparr>req_url = baseUrl api @ ''/api/users''
          @ (case params of None \<Rightarrow> [] | Some ps \<Rightarrow> ''?'' @ URLSearchParams_toString ps),
        req_method = GET,
        req_headers = [(''Content-Type'', ''application/json'')],
        req_body = None\<rparr>)"
proof (intro conjI)
  show "searchUsers api fetch searchTerm pageNumber pageSize =
     receive (fetch
       \<lparr>req_url = baseUrl api @ ''/api/users/search?searchTerm=''
          @ urlencode (template searchTerm)
          @ ''&pageNumber='' @ (case pageNumber of None \<Rightarrow> ''1'' | Some n \<Rightarrow> number_toString n)
          @ ''&pageSize='' @ (case pageSize of None \<Rightarrow> ''10'' | Some n \<Rightarrow> number_toString n),
        req_method = GET,
        req_headers = [(''Content-Type'', ''application/json'')],
        req_body = None\<rparr>)"
    by (simp add: searchUsers_def makeRequest_def build_request_def no_options_def basePath_def
        spread_headers_def URLSearchParams_toString_def urlencode_names page_default
        urlencode_page ToString_str_arg)
  show "getUsersByRole api fetch roleId pageNumber pageSize =
     receive (fetch
       \<lparr>req_url = baseUrl api @ ''/api/users/role/'' @ template roleId
          @ ''?pageNumber='' @ (case pageNumber of None \<Rightarrow> ''1'' | Some n \<Rightarrow> number_toString n)
          @ ''&pageSize='' @ (case pageSize of None \<Rightarrow> ''10'' | Some n \<Rightarrow> number_toString n),
        req_method = GET,
        req_headers = [(''Content-Type'', ''application/json'')],
        req_body = None\<rparr>)"
    by (simp add: getUsersByRole_def makeRequest_def build_request_def no_options_def
        basePath_def spread_headers_def URLSearchParams_toString_def urlencode_names
        page_default urlencode_page)
  show "getActiveUsers api fetch pageNumber pageSize =
     receive (fetch
       \<lparr>req_url = baseUrl api @ ''/api/users/active''
          @ ''?pageNumber='' @ (case pageNumber of None \<Rightarrow> ''1'' | Some n \<Rightarrow> number_toString n)
          @ ''&pageSize='' @ (case pageSize of None \<Rightarrow> ''10'' | Some n \<Rightarrow> number_toString n),
        req_method = GET,
        req_headers = [(''Content-Type'', ''application/json'')],
        req_body = None\<rparr>)"
    by (simp add: getActiveUsers_def makeRequest_def build_request_def no_options_def
        basePath_def spread_headers_def URLSearchParams_toString_def urlencode_names
        page_default urlencode_page)
  show "getUsers api fetch params =
     receive (fetch
       \<lparr>req_url = baseUrl api @ ''/api/users''
          @ (case params of None \<Rightarrow> [] | Some ps \<Rightarrow> ''?'' @ URLSearchParams_toString ps),
        req_method = GET,
        req_headers = [(''Content-Type'', ''application/json'')],
        req_body = None\<rparr>)"
    by (cases params) (simp_all add: getUsers_def makeRequest_def build_request_def
        no_options_def basePath_def spread_headers_def)
qed

theorem paginated_defaults_witness:
  "safe_number None \<and> safe_number (Some 2) \<and> safe_number (Some 25)
   \<and> safe_params (Some [(''PageNumber'', JNum 2)])
   \<and> getUsersByRole example_api fetch_echo_url (Some ''r1'') None None =
       Inr (JStr ''http://localhost:3000/api/users/role/r1?pageNumber=1&pageSize=10'')
   \<and> getActiveUsers example_api fetch_echo_url (Some 2) (Some 25) =
       Inr (JStr ''http://localhost:3000/api/users/active?pageNumber=2&pageSize=25'')
   \<and> getUsers example_api fetch_echo_url (Some [(''PageNumber'', JNum 2)]) =
       Inr (JStr ''http://localhost:3000/api/users?PageNumber=2'')"
proof -
  have n: "safe_number None" and a: "safe_number (Some 2)" and b: "safe_number (Some 25)"
    by (simp_all add: safe_number_def safe_integer_def)
  have p: "safe_params (Some [(''PageNumber'', JNum 2)])" and q: "safe_params None"
    by (simp_all add: safe_params_def safe_integer_def)
  have r: "getUsersByRole example_api fetch_echo_url (Some ''r1'') None None =
      Inr (JStr ''http://localhost:3000/api/users/role/r1?pageNumber=1&pageSize=10'')"
    using paginated_defaults [OF n n q, of example_api fetch_echo_url _ "Some ''r1''"]
    by (simp add: receive_echo example_api_url template_def)
  have t: "getActiveUsers example_api fetch_echo_url (Some 2) (Some 25) =
      Inr (JStr ''http://localhost:3000/api/users/active?pageNumber=2&pageSize=25'')
    \<and> getUsers example_api fetch_echo_url (Some [(''PageNumber'', JNum 2)]) =
      Inr (JStr ''http://localhost:3000/api/users?PageNumber=2'')"
    using paginated_defaults [OF a b p, of example_api fetch_echo_url]
    by (simp add: receive_echo example_api_url page_texts page_params_text)
  from n a b p r t show ?thesis by simp
qed

section \<open>Properties of the cache-key registry\<close>

lemma str_arg_eq [simp]: "structurally_equal (str_arg a) (str_arg b) = (a = b)"
  by (cases a; cases b) (simp_all add: str_arg_def)

lemma num_arg_eq [simp]: "structurally_equal (num_arg a) (num_arg b) = (a = b)"
  by (cases a; cases b) (simp_all add: num_arg_def)

lemma str_arg_inj [simp]: "(str_arg a = str_arg b) = (a = b)"
  by (cases a; cases b) (simp_all add: str_arg_def)

lemma num_arg_inj [simp]: "(num_arg a = num_arg b) = (a = b)"
  by (cases a; cases b) (simp_all add: num_arg_def)

lemma obj_arg_inj [simp]: "(obj_arg a = obj_arg b) = (a = b)"
  by (cases a; cases b) (simp_all add: obj_arg_def)

lemma str_arg_tags [simp]:
  "structurally_equal (JStr s) (str_arg b) = (b = Some s)"
  "structurally_equal (str_arg b) (JStr s) = (b = Some s)"
  by (cases b; auto simp add: str_arg_def)+

lemmas key_defs = QUERY_KEYS_users_def QUERY_KEYS_user_def QUERY_KEYS_usersPaged_def
  QUERY_KEYS_searchUsers_def QUERY_KEYS_usersByRole_def QUERY_KEYS_activeUsers_def

text \<open>
  C4. The keys of two read operations are structurally equal exactly when the operations
  are of the same kind and their parameters have equal field values; a key is a value, so
  parameters built independently with the same values give the same key, and keys are
  equal as values only for the same operation and parameters.
\<close>

theorem keyFor_structural:
  "key_equal (keyFor a) (keyFor b) = same_operation a b \<and> (keyFor a = keyFor b) = (a = b)"
proof
  show "key_equal (keyFor a) (keyFor b) = same_operation a b"
    by (cases a; cases b) (auto simp add: key_equal_def key_defs)
  show "(keyFor a = keyFor b) = (a = b)"
    by (cases a; cases b) (auto simp add: key_defs)
qed

theorem keyFor_structural_witness:
  "key_equal
     (keyFor (PagedUsers (Some [(''PageNumber'', JNum 1), (''PageSize'', JNum 10)])))
     (keyFor (PagedUsers (Some [(''PageSize'', JNum 10), (''PageNumber'', JNum 1)])))
   \<and> \<not> key_equal
     (keyFor (PagedUsers (Some [(''PageNumber'', JNum 1), (''PageSize'', JNum 10)])))
     (keyFor (PagedUsers (Some [(''PageNumber'', JNum 2), (''PageSize'', JNum 10)])))
   \<and> keyFor (SearchUsers (Some ''bob'') (Some 1) None) \<noteq>
       keyFor (UsersByRole (Some ''bob'') (Some 1) None)"
  using keyFor_structural
      [of "PagedUsers (Some [(''PageNumber'', JNum 1), (''PageSize'', JNum 10)])"
          "PagedUsers (Some [(''PageSize'', JNum 10), (''PageNumber'', JNum 1)])"]
    keyFor_structural
      [of "PagedUsers (Some [(''PageNumber'', JNum 1), (''PageSize'', JNum 10)])"
          "PagedUsers (Some [(''PageNumber'', JNum 2), (''PageSize'', JNum 10)])"]
    keyFor_structural
      [of "SearchUsers (Some ''bob'') (Some 1) None" "UsersByRole (Some ''bob'') (Some 1) None"]
  by (simp add: obj_arg_def get_entry_def)

section \<open>Properties of the hooks\<close>

lemma stringify_None: "(JSON_stringify v = None) = (v = JUndefined)"
  by (cases v) simp_all

lemma members_filter:
  "concat (map (\<lambda>(k, v). case JSON_stringify v of None \<Rightarrow> []
                          | Some s \<Rightarrow> [json_quote k @ '':'' @ s]) ps) =
   map (\<lambda>(k, v). json_quote k @ '':'' @ the (JSON_stringify v))
       (filter (\<lambda>(k, v). v \<noteq> JUndefined) ps)"
  by (induction ps) (auto simp: stringify_None split: option.splits)

lemma json_member_keys_eq:
  "json_member_keys ps = map fst (filter (\<lambda>(k, v). v \<noteq> JUndefined) ps)"
  by (simp add: json_member_keys_def stringify_None)

lemma match_users_prefix:
  "partialMatchKey (JArr (JStr ''users'' # rest)) (JArr QUERY_KEYS_users)"
  apply (subst partialMatchKey.simps)
  apply (simp add: QUERY_KEYS_users_def own_entries_def get_entry_def digits.simps [of 0]
      upt_rec [of 0])
  apply (subst partialMatchKey.simps)
  apply simp
  done

lemma keyFor_users: "\<exists>rest. keyFor q = JStr ''users'' # rest"
  by (cases q) (simp_all add: key_defs)

lemma invalidate_users:
  "cache (JStr ''users'' # rest) = Some e \<Longrightarrow>
   invalidateQueries QUERY_KEYS_users cache (JStr ''users'' # rest) =
     Some (e\<lparr>isInvalidated := True\<rparr>)"
  by (simp add: invalidateQueries_def match_users_prefix)

lemma invalidate_any:
  "cache k = Some e \<Longrightarrow>
   invalidateQueries f cache k = Some e
   \<or> invalidateQueries f cache k = Some (e\<lparr>isInvalidated := True\<rparr>)"
  by (simp add: invalidateQueries_def)

lemma invalidate_twice:
  assumes "cache (JStr ''users'' # rest) = Some e"
  shows "invalidateQueries QUERY_KEYS_users (invalidateQueries f cache) (JStr ''users'' # rest) =
     Some (e\<lparr>isInvalidated := True\<rparr>)"
proof -
  from assms have "invalidateQueries f cache (JStr ''users'' # rest) = Some e
      \<or> invalidateQueries f cache (JStr ''users'' # rest) = Some (e\<lparr>isInvalidated := True\<rparr>)"
    by (rule invalidate_any)
  then show ?thesis
    by (auto dest: invalidate_users)
qed

lemma mutate_create:
  "mutate (useCreateUser svc) fetch userData cache =
     (case createUser svc fetch userData of
        Inl err \<Rightarrow> (Inl err, cache)
      | Inr d \<Rightarrow> (Inr d, invalidateQueries QUERY_KEYS_users cache))"
  by (simp add: mutate_def mutation_start_def mutation_settle_def useCreateUser_def
      split: sum.splits)

lemma mutate_update:
  "mutate (useUpdateUser svc) fetch (uid, data) cache =
     (case updateUser svc fetch uid data of
        Inl err \<Rightarrow> (Inl err, cache)
      | Inr d \<Rightarrow> (Inr d, invalidateQueries QUERY_KEYS_users
                          (invalidateQueries (QUERY_KEYS_user (Some uid)) cache)))"
  by (simp add: mutate_def mutation_start_def mutation_settle_def useUpdateUser_def
      split: sum.splits)

lemma mutate_delete:
  "mutate (useDeleteUser svc) fetch uid cache =
     (case deleteUser svc fetch uid of
        Inl err \<Rightarrow> (Inl err, cache)
      | Inr d \<Rightarrow> (Inr d, invalidateQueries QUERY_KEYS_users cache))"
  by (simp add: mutate_def mutation_start_def mutation_settle_def useDeleteUser_def
      split: sum.splits)

lemma mutate_status:
  "mutate (useUpdateUserStatus svc) fetch (uid, st) cache =
     (case updateUserStatus svc fetch uid st of
        Inl err \<Rightarrow> (Inl err, cache)
      | Inr d \<Rightarrow> (Inr d, invalidateQueries QUERY_KEYS_users
                          (invalidateQueries (QUERY_KEYS_user (Some uid)) cache)))"
  by (simp add: mutate_def mutation_start_def mutation_settle_def useUpdateUserStatus_def
      split: sum.splits)

lemma json_quote_fields:
  \<open>json_quote ''email'' = ''"email"''\<close> \<open>json_quote ''name'' = ''"name"''\<close>
  \<open>json_quote ''password'' = ''"password"''\<close> \<open>json_quote ''a@x.com'' = ''"a@x.com"''\<close>
  \<open>json_quote ''A'' = ''"A"''\<close> \<open>json_quote ''p'' = ''"p"''\<close>
  by (simp_all add: json_quote_def json_escape_def)

lemma createUser_example: "createUser example_api fetch_created new_user = Inr created_response"
  by (simp add: createUser_def makeRequest_def build_request_def no_options_def basePath_def
      spread_headers_def new_user_def json_quote_fields fetch_created_def receive_def
      response_ok_def example_api_url)

lemma stringify_new_user:
  \<open>JSON_stringify new_user = Some ''{"email":"a@x.com","name":"A","password":"p"}''\<close>
  by (simp add: new_user_def json_quote_fields)

lemma updateUserStatus_500:
  "updateUserStatus example_api fetch_status_500 ''1'' inactive =
     Inl (Thrown ''Error'' ''HTTP error! status: 500'')"
  by (simp add: updateUserStatus_def makeRequest_def receive_def fetch_status_500_def
      response_ok_def digits_500)

text \<open>
  C8. Every key of the registry begins with the segment \<open>users\<close>, and each of the four
  mutations, when its call succeeds, leaves every cached entry under a registry key
  (lists, pages, searches, role and active filters, single users) marked invalidated, with
  its data kept.
\<close>

theorem mutations_invalidate_user_reads:
  "(\<exists>rest. keyFor q = JStr ''users'' # rest)
   \<and> (createUser svc fetch userData = Inr d \<longrightarrow> cache (keyFor q) = Some e \<longrightarrow>
        snd (mutate (useCreateUser svc) fetch userData cache) (keyFor q) =
          Some (e\<lparr>isInvalidated := True\<rparr>))
   \<and> (updateUser svc fetch uid userData = Inr d \<longrightarrow> cache (keyFor q) = Some e \<longrightarrow>
        snd (mutate (useUpdateUser svc) fetch (uid, userData) cache) (keyFor q) =
          Some (e\<lparr>isInvalidated := True\<rparr>))
   \<and> (deleteUser svc fetch uid = Inr d \<longrightarrow> cache (keyFor q) = Some e \<longrightarrow>
        snd (mutate (useDeleteUser svc) fetch uid cache) (keyFor q) =
          Some (e\<lparr>isInvalidated := True\<rparr>))
   \<and> (updateUserStatus svc fetch uid st = Inr d \<longrightarrow> cache (keyFor q) = Some e \<longrightarrow>
        snd (mutate (useUpdateUserStatus svc) fetch (uid, st) cache) (keyFor q) =
          Some (e\<lparr>isInvalidated := True\<rparr>))"
proof -
  obtain rest where k: "keyFor q = JStr ''users'' # rest"
    using keyFor_users by blast
  show ?thesis
    unfolding k
    by (simp add: mutate_create mutate_update mutate_delete mutate_status
        invalidate_users invalidate_twice)
qed

theorem mutations_invalidate_user_reads_witness:
  "snd (mutate (useCreateUser example_api) fetch_created new_user cache_user1)
     (keyFor (SingleUserById (Some ''1''))) =
   Some \<lparr>entry_data = user1_active, isInvalidated = True\<rparr>"
  using mutations_invalidate_user_reads [of "SingleUserById (Some ''1'')" example_api
      fetch_created new_user created_response cache_user1
      "\<lparr>entry_data = user1_active, isInvalidated = False\<rparr>"]
  by (simp add: createUser_example cache_user1_def)

text \<open>
  C7. A create request whose input has no \<open>phone\<close> property is sent as \<open>POST\<close> to
  \<open>/api/users\<close>; its body is the JSON text of the input, whose members are exactly the
  supplied properties with a defined value, so it has no \<open>phone\<close> member; and when the
  call succeeds, the cached users list and every cached unfiltered page are marked
  invalidated.
\<close>

theorem create_without_phone:
  "''phone'' \<notin> fst ` set props \<Longrightarrow>
   createUser api fetch (JObj props) =
     receive (fetch \<lparr>req_url = baseUrl api @ ''/api/users'',
                     req_method = POST,
                     req_headers = [(''Content-Type'', ''application/json'')],
                     req_body = JSON_stringify (JObj props)\<rparr>)
   \<and> JSON_stringify (JObj props) =
       Some (''{'' @ join '',''
         (map (\<lambda>(k, v). json_quote k @ '':'' @ the (JSON_stringify v))
              (filter (\<lambda>(k, v). v \<noteq> JUndefined) props)) @ ''}'')
   \<and> json_member_keys props = map fst (filter (\<lambda>(k, v). v \<noteq> JUndefined) props)
   \<and> ''phone'' \<notin> set (json_member_keys props)
   \<and> (createUser api fetch (JObj props) = Inr d \<longrightarrow>
        cache QUERY_KEYS_users = Some e \<longrightarrow>
        snd (mutate (useCreateUser api) fetch (JObj props) cache) QUERY_KEYS_users =
          Some (e\<lparr>isInvalidated := True\<rparr>))
   \<and> (createUser api fetch (JObj props) = Inr d \<longrightarrow>
        cache (QUERY_KEYS_usersPaged params) = Some e' \<longrightarrow>
        snd (mutate (useCreateUser api) fetch (JObj props) cache)
            (QUERY_KEYS_usersPaged params) =
          Some (e'\<lparr>isInvalidated := True\<rparr>))"
proof (intro conjI)
  assume nophone: "''phone'' \<notin> fst ` set props"
  show "createUser api fetch (JObj props) =
     receive (fetch \<lparr>req_url = baseUrl api @ ''/api/users'',
                     req_method = POST,
                     req_headers = [(''Content-Type'', ''application/json'')],
                     req_body = JSON_stringify (JObj props)\<rparr>)"
    by (simp add: createUser_def makeRequest_def build_request_def no_options_def basePath_def
        spread_headers_def del: JSON_stringify.simps)
  show "JSON_stringify (JObj props) =
       Some (''{'' @ join '',''
         (map (\<lambda>(k, v). json_quote k @ '':'' @ the (JSON_stringify v))
              (filter (\<lambda>(k, v). v \<noteq> JUndefined) props)) @ ''}'')"
    by (simp add: members_filter)
  show "json_member_keys props = map fst (filter (\<lambda>(k, v). v \<noteq> JUndefined) props)"
    by (rule json_member_keys_eq)
  from nophone show "''phone'' \<notin> set (json_member_keys props)"
    by (auto simp: json_member_keys_eq)
  show "createUser api fetch (JObj props) = Inr d \<longrightarrow>
        cache QUERY_KEYS_users = Some e \<longrightarrow>
        snd (mutate (useCreateUser api) fetch (JObj props) cache) QUERY_KEYS_users =
          Some (e\<lparr>isInvalidated := True\<rparr>)"
    using invalidate_users [of cache "[]" e]
    by (simp add: mutate_create QUERY_KEYS_users_def)
  show "createUser api fetch (JObj props) = Inr d \<longrightarrow>
        cache (QUERY_KEYS_usersPaged params) = Some e' \<longrightarrow>
        snd (mutate (useCreateUser api) fetch (JObj props) cache)
            (QUERY_KEYS_usersPaged params) =
          Some (e'\<lparr>isInvalidated := True\<rparr>)"
    using invalidate_users [of cache "[JStr ''paged'', obj_arg params]" e']
    by (simp add: mutate_create QUERY_KEYS_usersPaged_def)
qed

theorem create_without_phone_witness:
  \<open>''phone'' \<notin> fst ` set [(''email'', JStr ''a@x.com''), (''name'', JStr ''A''),
       (''password'', JStr ''p'')]
   \<and> createUser example_api fetch_created new_user = Inr created_response
   \<and> JSON_stringify new_user = Some ''{"email":"a@x.com","name":"A","password":"p"}''
   \<and> ''phone'' \<notin> set (json_member_keys
         [(''email'', JStr ''a@x.com''), (''name'', JStr ''A''), (''password'', JStr ''p'')])
   \<and> snd (mutate (useCreateUser example_api) fetch_created new_user cache_lists)
         QUERY_KEYS_users =
       Some \<lparr>entry_data = JArr [], isInvalidated = True\<rparr>\<close>
proof -
  have h: "''phone'' \<notin> fst ` set [(''email'', JStr ''a@x.com''), (''name'', JStr ''A''),
      (''password'', JStr ''p'')]"
    by simp
  have c: "cache_lists QUERY_KEYS_users = Some \<lparr>entry_data = JArr [], isInvalidated = False\<rparr>"
    by (simp add: cache_lists_def QUERY_KEYS_users_def QUERY_KEYS_usersPaged_def)
  have ok: "createUser example_api fetch_created
      (JObj [(''email'', JStr ''a@x.com''), (''name'', JStr ''A''), (''password'', JStr ''p'')]) =
      Inr created_response"
    using createUser_example by (simp only: new_user_def)
  note t = create_without_phone [OF h, of example_api fetch_created created_response cache_lists
      "\<lparr>entry_data = JArr [], isInvalidated = False\<rparr>"]
  from t have k: "''phone'' \<notin> set (json_member_keys
      [(''email'', JStr ''a@x.com''), (''name'', JStr ''A''), (''password'', JStr ''p'')])"
    by blast
  from t ok c have m: "snd (mutate (useCreateUser example_api) fetch_created
      (JObj [(''email'', JStr ''a@x.com''), (''name'', JStr ''A''), (''password'', JStr ''p'')])
      cache_lists) QUERY_KEYS_users = Some \<lparr>entry_data = JArr [], isInvalidated = True\<rparr>"
    by simp
  from h createUser_example stringify_new_user k m show ?thesis
    by (simp only: new_user_def simp_thms)
qed

text \<open>
  C6. The get-by-id, search and by-role read hooks issue no call exactly when their
  required parameter is absent or the empty string; nothing is reported as an error in
  that case. With any other value the hook calls the resource client with its arguments.
\<close>

theorem required_parameter_disables_read:
  "(useQuery_issue (useUser svc uid) fetch = None) = (uid = None \<or> uid = Some [])
   \<and> (useQuery_issue (useSearchUsers svc searchTerm pageNumber pageSize) fetch = None) =
       (searchTerm = None \<or> searchTerm = Some [])
   \<and> (useQuery_issue (useUsersByRole svc roleId pageNumber pageSize) fetch = None) =
       (roleId = None \<or> roleId = Some [])
   \<and> (\<not> (uid = None \<or> uid = Some []) \<longrightarrow>
        useQuery_issue (useUser svc uid) fetch = Some (getUserById svc fetch uid))
   \<and> (\<not> (searchTerm = None \<or> searchTerm = Some []) \<longrightarrow>
        useQuery_issue (useSearchUsers svc searchTerm pageNumber pageSize) fetch =
          Some (searchUsers svc fetch searchTerm pageNumber pageSize))
   \<and> (\<not> (roleId = None \<or> roleId = Some []) \<longrightarrow>
        useQuery_issue (useUsersByRole svc roleId pageNumber pageSize) fetch =
          Some (getUsersByRole svc fetch roleId pageNumber pageSize))"
  by (cases uid; cases searchTerm; cases roleId)
     (simp_all add: useQuery_issue_def useUser_def useSearchUsers_def useUsersByRole_def
       str_arg_def)

theorem required_parameter_disables_read_witness:
  "useQuery_issue (useUser example_api (Some [])) fetch_echo_url = None
   \<and> useQuery_issue (useUser example_api None) fetch_echo_url = None
   \<and> useQuery_issue (useUser example_api (Some ''1'')) fetch_echo_url =
       Some (Inr (JStr ''http://localhost:3000/api/users/1''))"
  using required_parameter_disables_read
      [of example_api "Some []" fetch_echo_url "Some []" None None "Some []"]
    required_parameter_disables_read
      [of example_api None fetch_echo_url "Some []" None None "Some []"]
    required_parameter_disables_read
      [of example_api "Some ''1''" fetch_echo_url "Some []" None None "Some []"]
  by (simp add: getUserById_def makeRequest_def build_request_def no_options_def basePath_def
      spread_headers_def receive_echo example_api_url template_def)

text \<open>
  C1, as stated, fails: the status-update hook supplies no \<open>onMutate\<close> callback. With
  user \<open>1\<close> cached as \<open>active\<close>, the cache still shows \<open>active\<close>, not \<open>inactive\<close>,
  while the update to \<open>inactive\<close> is pending.
\<close>

theorem optimistic_status_counterexample:
  "cached_status cache_user1 ''1'' = Some (JStr ''active'')
   \<and> cached_status (snd (mutation_start (useUpdateUserStatus example_api)
        (''1'', inactive) cache_user1)) ''1'' = Some (JStr ''active'')
   \<and> cached_status (snd (mutation_start (useUpdateUserStatus example_api)
        (''1'', inactive) cache_user1)) ''1'' \<noteq> Some (JStr ''inactive'')"
  by (simp add: cached_status_def cache_user1_def mutation_start_def useUpdateUserStatus_def
      user1_active_def get_prop_def get_entry_def)

text \<open>
  C1, amended. A status-update mutation does not rewrite the cache before the network
  call resolves: while the call is pending the cache is the cache before the mutation,
  and when the call fails the cache is still that cache. When the call succeeds, the
  single-user entry and every entry under the \<open>users\<close> prefix are marked invalidated,
  their data kept.
\<close>

theorem status_update_cache:
  "snd (mutation_start (useUpdateUserStatus svc) (uid, st) cache) = cache
   \<and> (updateUserStatus svc fetch uid st = Inl err \<longrightarrow>
        mutate (useUpdateUserStatus svc) fetch (uid, st) cache = (Inl err, cache))
   \<and> (updateUserStatus svc fetch uid st = Inr d \<longrightarrow>
        mutate (useUpdateUserStatus svc) fetch (uid, st) cache =
          (Inr d, invalidateQueries QUERY_KEYS_users
                    (invalidateQueries (QUERY_KEYS_user (Some uid)) cache)))
   \<and> (updateUserStatus svc fetch uid st = Inr d \<longrightarrow>
        cache (QUERY_KEYS_user (Some uid)) = Some e \<longrightarrow>
        snd (mutate (useUpdateUserStatus svc) fetch (uid, st) cache)
            (QUERY_KEYS_user (Some uid)) =
          Some (e\<lparr>isInvalidated := True\<rparr>))"
proof (intro conjI)
  show "snd (mutation_start (useUpdateUserStatus svc) (uid, st) cache) = cache"
    by (simp add: mutation_start_def useUpdateUserStatus_def)
  show "updateUserStatus svc fetch uid st = Inl err \<longrightarrow>
        mutate (useUpdateUserStatus svc) fetch (uid, st) cache = (Inl err, cache)"
    by (simp add: mutate_status)
  show "updateUserStatus svc fetch uid st = Inr d \<longrightarrow>
        mutate (useUpdateUserStatus svc) fetch (uid, st) cache =
          (Inr d, invalidateQueries QUERY_KEYS_users
                    (invalidateQueries (QUERY_KEYS_user (Some uid)) cache))"
    by (simp add: mutate_status)
  show "updateUserStatus svc fetch uid st = Inr d \<longrightarrow>
        cache (QUERY_KEYS_user (Some uid)) = Some e \<longrightarrow>
        snd (mutate (useUpdateUserStatus svc) fetch (uid, st) cache)
            (QUERY_KEYS_user (Some uid)) =
          Some (e\<lparr>isInvalidated := True\<rparr>)"
    using invalidate_twice [of cache "[str_arg (Some uid)]" e "QUERY_KEYS_user (Some uid)"]
    by (simp add: mutate_status QUERY_KEYS_user_def)
qed

theorem status_update_cache_witness:
  "mutate (useUpdateUserStatus example_api) fetch_status_500 (''1'', inactive) cache_user1 =
     (Inl (Thrown ''Error'' ''HTTP error! status: 500''), cache_user1)
   \<and> cached_status (snd (mutate (useUpdateUserStatus example_api) fetch_status_500
        (''1'', inactive) cache_user1)) ''1'' = Some (JStr ''active'')"
  using status_update_cache [of example_api "''1''" inactive cache_user1 fetch_status_500
      "Thrown ''Error'' ''HTTP error! status: 500''"]
    updateUserStatus_500
  by (simp add: cached_status_def cache_user1_def user1_active_def get_prop_def get_entry_def)

end
